theory Spec2Isabelle
  imports Main
begin

section \<open>Strings\<close>

text \<open>
  Python strings are modelled as \<^typ>\<open>string\<close>. The identifiers, clocks and game codes
  the program receives are ASCII; the non-ASCII characters of the program's own literals
  are written as their UTF-8 bytes. Substring tests with an ASCII needle and splitting at
  an ASCII separator give the same answer on the UTF-8 bytes as on the code points.
\<close>

abbreviation stop_sign :: string where
  "stop_sign \<equiv> [CHR 0xF0, CHR 0x9F, CHR 0x9B, CHR 0x91]"

abbreviation no_entry :: string where
  "no_entry \<equiv> [CHR 0xF0, CHR 0x9F, CHR 0x9A, CHR 0xAB]"

abbreviation check_mark :: string where
  "check_mark \<equiv> [CHR 0xE2, CHR 0x9C, CHR 0x85]"

abbreviation cross_mark :: string where
  "cross_mark \<equiv> [CHR 0xE2, CHR 0x9D, CHR 0x8C]"

abbreviation yellow_circle :: string where
  "yellow_circle \<equiv> [CHR 0xF0, CHR 0x9F, CHR 0x9F, CHR 0xA1]"

abbreviation hourglass :: string where
  "hourglass \<equiv> [CHR 0xE2, CHR 0x8F, CHR 0xB3]"

abbreviation rocket :: string where
  "rocket \<equiv> [CHR 0xF0, CHR 0x9F, CHR 0x9A, CHR 0x80]"

abbreviation warning_sign :: string where
  "warning_sign \<equiv> [CHR 0xE2, CHR 0x9A, CHR 0xA0, CHR 0xEF, CHR 0xB8, CHR 0x8F]"

abbreviation ge_sign :: string where
  "ge_sign \<equiv> [CHR 0xE2, CHR 0x89, CHR 0xA5]"

abbreviation cent_sign :: string where
  "cent_sign \<equiv> [CHR 0xC2, CHR 0xA2]"

abbreviation em_dash :: string where
  "em_dash \<equiv> [CHR 0xE2, CHR 0x80, CHR 0x94]"

text \<open>Decimal rendering of an integer, as an f-string \<^verbatim>\<open>f"{n}"\<close> prints it.\<close>

fun str_of_nat :: "nat \<Rightarrow> string" where
  "str_of_nat n =
     (if n < 10 then [char_of (48 + n)]
      else str_of_nat (n div 10) @ [char_of (48 + n mod 10)])"

declare str_of_nat.simps [simp del]

definition str_of_int :: "int \<Rightarrow> string" where
  "str_of_int i = (if i < 0 then CHR ''-'' # str_of_nat (nat (- i)) else str_of_nat (nat i))"

text \<open>\<^verbatim>\<open>needle in s\<close> on strings: \<open>needle\<close> occurs as a contiguous substring.\<close>

fun starts_with :: "string \<Rightarrow> string \<Rightarrow> bool" where
  "starts_with [] s = True"
| "starts_with (p # ps) [] = False"
| "starts_with (p # ps) (c # cs) = (p = c \<and> starts_with ps cs)"

fun str_contains :: "string \<Rightarrow> string \<Rightarrow> bool" where
  "str_contains needle [] = (needle = [])"
| "str_contains needle (c # cs) = (starts_with needle (c # cs) \<or> str_contains needle cs)"

text \<open>\<^verbatim>\<open>s.split(c)\<close> for a one-character separator: never empty, one more part than separators.\<close>

fun split_char :: "char \<Rightarrow> string \<Rightarrow> string list" where
  "split_char c [] = [[]]"
| "split_char c (x # xs) =
     (if x = c then [] # split_char c xs
      else (case split_char c xs of
              [] \<Rightarrow> [[x]]
            | p # ps \<Rightarrow> (x # p) # ps))"

text \<open>\<^verbatim>\<open>s[a:b]\<close> for \<open>0 \<le> a \<le> b\<close>: out-of-range bounds are clipped, nothing is raised.\<close>

definition slice :: "nat \<Rightarrow> nat \<Rightarrow> string \<Rightarrow> string" where
  "slice a b s = take (b - a) (drop a s)"

definition upper_char :: "char \<Rightarrow> char" where
  "upper_char c =
     (let n = (of_char c :: nat) in if 97 \<le> n \<and> n \<le> 122 then char_of (n - 32) else c)"

definition upper :: "string \<Rightarrow> string" where
  "upper s = map upper_char s"

text \<open>\<^verbatim>\<open>d[k] = v\<close> on an insertion-ordered dictionary kept as an association list.\<close>

fun dict_set :: "(string \<times> string) list \<Rightarrow> string \<Rightarrow> string \<Rightarrow> (string \<times> string) list" where
  "dict_set [] k v = [(k, v)]"
| "dict_set ((k', v') # kvs) k v =
     (if k' = k then (k, v) # kvs else (k', v') # dict_set kvs k v)"

section \<open>Price spike detection\<close>

text \<open>
  A sample is \<open>(timestamp, price)\<close>. Timestamps are the values of \<^verbatim>\<open>datetime.now()\<close>,
  counted in microseconds; each operation that reads the clock takes the reading as its
  argument \<open>now\<close>. The two session dictionaries are absent until
  \<open>init_price_history\<close> creates them.
\<close>

type_synonym sample = "int \<times> int"

record session_state =
  price_history :: "(string \<rightharpoonup> sample list) option"
  spike_alerts :: "(string \<rightharpoonup> bool) option"

definition fresh_session :: session_state where
  "fresh_session = \<lparr>price_history = None, spike_alerts = None\<rparr>"

definition timedelta :: "int \<Rightarrow> int" where
  "timedelta seconds = seconds * 1000000"

definition the_history :: "session_state \<Rightarrow> (string \<rightharpoonup> sample list)" where
  "the_history st = (case price_history st of None \<Rightarrow> Map.empty | Some h \<Rightarrow> h)"

definition the_alerts :: "session_state \<Rightarrow> (string \<rightharpoonup> bool)" where
  "the_alerts st = (case spike_alerts st of None \<Rightarrow> Map.empty | Some a \<Rightarrow> a)"

definition samples_of :: "(string \<rightharpoonup> sample list) \<Rightarrow> string \<Rightarrow> sample list" where
  "samples_of h ticker = (case h ticker of None \<Rightarrow> [] | Some xs \<Rightarrow> xs)"

definition init_price_history :: "session_state \<Rightarrow> session_state" where
  "init_price_history st =
     st\<lparr>price_history := Some (the_history st), spike_alerts := Some (the_alerts st)\<rparr>"

definition record_price :: "session_state \<Rightarrow> string \<Rightarrow> int \<Rightarrow> int \<Rightarrow> session_state" where
  "record_price st ticker price now =
     (let st1 = init_price_history st;
          h = the_history st1;
          h1 = (if h ticker = None then h(ticker \<mapsto> []) else h);
          h2 = h1(ticker \<mapsto> samples_of h1 ticker @ [(now, price)]);
          cutoff = now - timedelta 120;
          h3 = h2(ticker \<mapsto> [(t, p) \<leftarrow> samples_of h2 ticker. t > cutoff])
      in st1\<lparr>price_history := Some h3\<rparr>)"

definition check_price_spike ::
  "session_state \<Rightarrow> string \<Rightarrow> int \<Rightarrow> int \<Rightarrow> int \<Rightarrow> int \<Rightarrow> (bool \<times> int) \<times> session_state" where
  "check_price_spike st ticker current_price threshold_cents window_seconds now =
     (let st1 = init_price_history st in
      case the_history st1 ticker of
        None \<Rightarrow> ((False, 0), st1)
      | Some samples \<Rightarrow>
          (let cutoff = now - timedelta window_seconds;
               old_prices = [(t, p) \<leftarrow> samples. t \<le> cutoff]
           in case old_prices of
                [] \<Rightarrow> ((False, 0), st1)
              | (t0, oldest_price) # _ \<Rightarrow>
                  (let delta = current_price - oldest_price in
                   if delta \<ge> threshold_cents
                   then ((True, delta),
                         st1\<lparr>spike_alerts := Some ((the_alerts st1)(ticker \<mapsto> True))\<rparr>)
                   else ((False, delta), st1))))"

definition is_spiked :: "session_state \<Rightarrow> string \<Rightarrow> bool \<times> session_state" where
  "is_spiked st ticker =
     (let st1 = init_price_history st in
      ((case the_alerts st1 ticker of None \<Rightarrow> False | Some v \<Rightarrow> v), st1))"

definition clear_spike :: "session_state \<Rightarrow> string \<Rightarrow> session_state" where
  "clear_spike st ticker =
     (let st1 = init_price_history st in
      if the_alerts st1 ticker \<noteq> None
      then st1\<lparr>spike_alerts := Some ((the_alerts st1)(ticker \<mapsto> False))\<rparr>
      else st1)"

text \<open>Sequences of tracker calls that do not clear: each carries its arguments and clock reading.\<close>

datatype tracker_call =
    RecordPrice string int int
  | CheckPriceSpike string int int int int
  | IsSpiked string

fun run_call :: "session_state \<Rightarrow> tracker_call \<Rightarrow> session_state" where
  "run_call st (RecordPrice ticker price now) = record_price st ticker price now"
| "run_call st (CheckPriceSpike ticker price thr w now) =
     snd (check_price_spike st ticker price thr w now)"
| "run_call st (IsSpiked ticker) = snd (is_spiked st ticker)"

definition run_calls :: "session_state \<Rightarrow> tracker_call list \<Rightarrow> session_state" where
  "run_calls st calls = foldl run_call st calls"

definition alert_set :: "session_state \<Rightarrow> string \<Rightarrow> bool" where
  "alert_set st x = (the_alerts st x = Some True)"

text \<open>Price 60 recorded at 0 s and 67 at 31 s for ticker T1.\<close>

definition scenario5 :: session_state where
  "scenario5 = record_price (record_price fresh_session ''T1'' 60 0) ''T1'' 67 31000000"

section \<open>Ticker parsing and market quotes\<close>

definition months :: "(string \<times> string) list" where
  "months =
     [(''JAN'', ''01''), (''FEB'', ''02''), (''MAR'', ''03''), (''APR'', ''04''),
      (''MAY'', ''05''), (''JUN'', ''06''), (''JUL'', ''07''), (''AUG'', ''08''),
      (''SEP'', ''09''), (''OCT'', ''10''), (''NOV'', ''11''), (''DEC'', ''12'')]"

text \<open>\<^verbatim>\<open>d.get(k, default)\<close> on a dictionary literal.\<close>

definition dict_get :: "(string \<times> string) list \<Rightarrow> string \<Rightarrow> string \<Rightarrow> string" where
  "dict_get d k dflt = (case map_of d k of None \<Rightarrow> dflt | Some v \<Rightarrow> v)"

text \<open>
  The body of \<open>parse_game_date\<close> only slices a string and reads a dictionary with a
  default; neither raises, so on a string argument the \<^verbatim>\<open>except\<close> branch (the only
  one returning \<^verbatim>\<open>None\<close>) is never taken and the result is always \<open>Some\<close>.
\<close>

definition parse_game_date :: "string \<Rightarrow> string option" where
  "parse_game_date game_code =
     (let year = ''20'' @ slice 0 2 game_code;
          month_str = upper (slice 2 5 game_code);
          day = slice 5 7 game_code
      in Some (year @ ''-'' @ dict_get months month_str ''01'' @ ''-'' @ day))"

definition TICKER_ABBREVS :: "(string \<times> string) list" where
  "TICKER_ABBREVS =
     [(''ATL'', ''Atlanta''), (''BOS'', ''Boston''), (''BRO'', ''Brooklyn''),
      (''BKN'', ''Brooklyn''), (''CHA'', ''Charlotte''), (''CHI'', ''Chicago''),
      (''CLE'', ''Cleveland''), (''DAL'', ''Dallas''), (''DEN'', ''Denver''),
      (''DET'', ''Detroit''), (''GSW'', ''Golden State''), (''GS'', ''Golden State''),
      (''HOU'', ''Houston''), (''IND'', ''Indiana''), (''LAC'', ''LA Clippers''),
      (''LAL'', ''LA Lakers''), (''MEM'', ''Memphis''), (''MIA'', ''Miami''),
      (''MIL'', ''Milwaukee''), (''MIN'', ''Minnesota''), (''NOP'', ''New Orleans''),
      (''NO'', ''New Orleans''), (''NYK'', ''New York''), (''NY'', ''New York''),
      (''OKC'', ''Oklahoma City''), (''ORL'', ''Orlando''), (''PHI'', ''Philadelphia''),
      (''PHX'', ''Phoenix''), (''PHO'', ''Phoenix''), (''POR'', ''Portland''),
      (''SAC'', ''Sacramento''), (''SAS'', ''San Antonio''), (''SA'', ''San Antonio''),
      (''TOR'', ''Toronto''), (''UTA'', ''Utah''), (''WAS'', ''Washington'')]"

definition parse_teams_from_ticker :: "string \<Rightarrow> string option \<times> string option" where
  "parse_teams_from_ticker ticker_code =
     (if length ticker_code < 12 then (None, None)
      else
        (let teams_part = drop 7 ticker_code;
             away = dict_get TICKER_ABBREVS (upper (slice 0 3 teams_part)) (slice 0 3 teams_part);
             home = dict_get TICKER_ABBREVS (upper (slice 3 6 teams_part)) (slice 3 6 teams_part)
         in (Some away, Some home)))"

text \<open>
  One element of the exchange's \<^verbatim>\<open>markets\<close> array. A price or strike that is missing or
  \<^verbatim>\<open>null\<close> is \<open>None\<close>; a missing \<^verbatim>\<open>ticker\<close> or \<^verbatim>\<open>event_ticker\<close> is the empty string and a
  missing \<^verbatim>\<open>volume\<close> is 0, the defaults of the program's \<^verbatim>\<open>get\<close> calls. Strikes and prices
  are integers, prices in cents.
\<close>

record raw_market =
  raw_ticker :: string
  raw_event_ticker :: string
  raw_floor_strike :: "int option"
  raw_yes_ask :: "int option"
  raw_no_ask :: "int option"
  raw_volume :: int

record market =
  mkt_ticker :: string
  mkt_event_ticker :: string
  mkt_threshold :: int
  mkt_away_team :: "string option"
  mkt_home_team :: "string option"
  mkt_yes_ask :: int
  mkt_no_ask :: int
  mkt_volume :: int

text \<open>\<^verbatim>\<open>m.get(k, 0) or 0\<close>: a missing, null or zero entry is 0.\<close>

definition or_zero :: "int option \<Rightarrow> int" where
  "or_zero v = (case v of None \<Rightarrow> 0 | Some n \<Rightarrow> n)"

text \<open>The body of the loop of \<open>fetch_extreme_totals\<close>: the quote appended for one market, if any.\<close>

definition extreme_total_of :: "string \<Rightarrow> int \<Rightarrow> raw_market \<Rightarrow> market option" where
  "extreme_total_of today min_threshold m =
     (case raw_floor_strike m of
        None \<Rightarrow> None
      | Some floor_strike \<Rightarrow>
          if floor_strike \<noteq> 0 \<and> floor_strike \<ge> min_threshold then
            (let event_ticker = raw_event_ticker m;
                 parts = split_char CHR ''-'' event_ticker
             in if length parts \<ge> 2 then
                  (let game_code = parts ! 1 in
                   if parse_game_date game_code \<noteq> Some today then None
                   else
                     (let (away, home) = parse_teams_from_ticker game_code;
                          yes_ask = or_zero (raw_yes_ask m);
                          no_ask0 = or_zero (raw_no_ask m);
                          no_ask = (if no_ask0 = 0 \<and> yes_ask > 0 then 1 - yes_ask else no_ask0)
                      in Some \<lparr>mkt_ticker = raw_ticker m, mkt_event_ticker = event_ticker,
                               mkt_threshold = floor_strike, mkt_away_team = away,
                               mkt_home_team = home, mkt_yes_ask = yes_ask,
                               mkt_no_ask = no_ask, mkt_volume = raw_volume m\<rparr>))
                else None)
          else None)"

text \<open>
  The outcome of the HTTP request: it raised (with the exception's text), or it returned
  a status code and, as far as the program reads it, the \<^verbatim>\<open>markets\<close> array of the body.
\<close>

datatype http_result =
    Raised string
  | Response int "raw_market list"

text \<open>
  \<open>fetch_extreme_totals\<close> with the request's outcome and the current Eastern date as
  arguments. The final sort is stable and descending in the strike.
\<close>

definition fetch_extreme_totals ::
  "string \<Rightarrow> int \<Rightarrow> http_result \<Rightarrow> market list \<times> string option \<times> string" where
  "fetch_extreme_totals today min_threshold resp =
     (case resp of
        Raised e \<Rightarrow> ([], Some e, today)
      | Response status_code ms \<Rightarrow>
          if status_code \<noteq> 200 then ([], Some (''API Error: '' @ str_of_int status_code), today)
          else
            (let markets = List.map_filter (extreme_total_of today min_threshold) ms
             in (rev (sort_key mkt_threshold (rev markets)), None, today)))"

definition yes_only_market :: raw_market where
  "yes_only_market =
     \<lparr>raw_ticker = ''KXNBATOTAL-26JAN05LALBOS-250'',
      raw_event_ticker = ''KXNBATOTAL-26JAN05LALBOS'',
      raw_floor_strike = Some 250, raw_yes_ask = Some 30, raw_no_ask = Some 0,
      raw_volume = 12\<rparr>"

section \<open>Recommended bid\<close>

text \<open>
  Prices are integer cents, so the program's \<^verbatim>\<open>int(...)\<close> conversions of price
  arithmetic are the identity. A \<^verbatim>\<open>None\<close> bid is \<open>None\<close>. The test
  \<^verbatim>\<open>q1_total and q1_total >= 55\<close> is false for \<^verbatim>\<open>None\<close> and for 0.
\<close>

definition calculate_recommended_bid ::
  "int \<Rightarrow> string \<Rightarrow> int option \<Rightarrow> bool \<Rightarrow> bool \<Rightarrow> int option \<times> string \<times> string" where
  "calculate_recommended_bid no_ask game_state q1_total spiked q1_lock_imminent =
     (if spiked then
        (None, stop_sign @ '' DO NOT BID'',
         ''Market moved too fast '' @ em_dash @ '' wait for cooldown'')
      else if game_state = ''pregame'' then
        (Some (max (no_ask - 10) 60), ''Patient Pregame Bid'',
         ''Let price come to you '' @ em_dash @ '' don'' @ [CHR 0x27] @ ''t chase'')
      else if game_state = ''live_q1'' \<and> q1_lock_imminent then
        (Some (min (no_ask - 5) 75), ''Early Live Bid'',
         ''Q1 lock-in forming '' @ em_dash @ '' tighten if desired'')
      else if game_state = ''live_q1'' then
        (Some (max (no_ask - 8) 60), ''Live Q1 Bid'',
         ''Waiting for Q1 end '' @ em_dash @ '' park conservatively'')
      else if game_state = ''post_q1'' then
        (if (case q1_total of None \<Rightarrow> False | Some q \<Rightarrow> q \<noteq> 0 \<and> q \<ge> 55) then
           (None, no_entry @ '' NO TRADE'', ''Q1 too high '' @ em_dash @ '' skip this game'')
         else if no_ask \<le> 75 then
           (None, check_mark @ '' ASK ACCEPTABLE'',
            ''Lift ask at '' @ str_of_int no_ask @ cent_sign @ '' if desired'')
         else
           (Some (no_ask - 3), ''Post-Q1 Value Bid'',
            ''Information edge confirmed '' @ em_dash @ '' tight spread OK''))
      else (Some (max (no_ask - 10) 60), ''Default Bid'', ''Conservative parking''))"

section \<open>Game state\<close>

text \<open>
  A live-score entry as \<open>fetch_espn_live_scores\<close> and \<open>get_live_game_data\<close> build it:
  every key is present. \<open>None\<close> stands for no entry (\<^verbatim>\<open>None\<close>).
\<close>

record live_data =
  ld_away_team :: string
  ld_home_team :: string
  ld_away_score :: int
  ld_home_score :: int
  ld_total :: int
  ld_status :: string
  ld_quarter :: string
  ld_clock :: string
  ld_period :: int

text \<open>
  The clock computation inside the \<^verbatim>\<open>try\<close> block. Python's conversions are arguments:
  \<open>py_int s\<close> is the value of \<^verbatim>\<open>int(s)\<close> and \<open>py_int_float s\<close> the value of
  \<^verbatim>\<open>int(float(s))\<close>, each \<open>None\<close> where the conversion raises. Unpacking the split
  into two names raises unless there are exactly two parts. Every exception ends in the
  bare \<^verbatim>\<open>except\<close>, here \<open>None\<close>.
\<close>

definition clock_total_secs ::
  "(string \<Rightarrow> int option) \<Rightarrow> (string \<Rightarrow> int option) \<Rightarrow> string \<Rightarrow> int option" where
  "clock_total_secs py_int py_int_float clock =
     (case split_char CHR '':'' clock of
        [mins, secs] \<Rightarrow>
          (case py_int mins of
             None \<Rightarrow> None
           | Some m \<Rightarrow>
               (case py_int_float secs of
                  None \<Rightarrow> None
                | Some s \<Rightarrow> Some (m * 60 + s)))
      | _ \<Rightarrow> None)"

definition get_game_state ::
  "(string \<Rightarrow> int option) \<Rightarrow> (string \<Rightarrow> int option) \<Rightarrow> live_data option
     \<Rightarrow> string \<times> bool \<times> int option" where
  "get_game_state py_int py_int_float live =
     (case live of
        None \<Rightarrow> (''pregame'', False, None)
      | Some ld \<Rightarrow>
          (let period = ld_period ld;
               quarter = ld_quarter ld;
               clock = ld_clock ld;
               total_score = ld_total ld;
               q1_lock_imminent =
                 (if period = 1 \<and> \<not> str_contains ''End'' quarter then
                    (if str_contains '':'' clock then
                       (case clock_total_secs py_int py_int_float clock of
                          None \<Rightarrow> False
                        | Some total_secs \<Rightarrow> total_secs \<le> 75 \<and> total_score < 50)
                     else False)
                  else False)
           in if period = 0 \<or> ld_status ld = yellow_circle @ '' SCHEDULED'' then
                (''pregame'', False, None)
              else if period = 1 \<and> str_contains ''End'' quarter then
                (''post_q1'', False, Some total_score)
              else if period = 1 then (''live_q1'', q1_lock_imminent, Some total_score)
              else if period > 1 then (''post_q1'', False, Some total_score)
              else (''pregame'', False, None)))"

text \<open>
  A reference conversion for concrete runs: the value of a non-empty string of ASCII
  decimal digits, on which \<^verbatim>\<open>int(s)\<close> and \<^verbatim>\<open>int(float(s))\<close> agree for the
  short strings of a game clock.
\<close>

definition decimal_digits :: "string \<Rightarrow> int option" where
  "decimal_digits s =
     (if s \<noteq> [] \<and> list_all (\<lambda>c. 48 \<le> (of_char c :: nat) \<and> (of_char c :: nat) \<le> 57) s
      then Some (int (foldl (\<lambda>acc c. acc * 10 + (of_char c - 48)) 0 s))
      else None)"

definition q1_snapshot :: "string \<Rightarrow> int \<Rightarrow> live_data" where
  "q1_snapshot clock total_score =
     \<lparr>ld_away_team = ''Boston'', ld_home_team = ''Miami'', ld_away_score = total_score - 20,
      ld_home_score = 20, ld_total = total_score,
      ld_status = [CHR 0xF0, CHR 0x9F, CHR 0x9F, CHR 0xA2] @ '' LIVE'',
      ld_quarter = ''Q1'', ld_clock = clock, ld_period = 1\<rparr>"

section \<open>Price tolerance and confidence\<close>

definition get_price_tolerance :: "int option \<Rightarrow> int \<times> string" where
  "get_price_tolerance q1_total =
     (case q1_total of
        None \<Rightarrow> (68, ''Pregame'')
      | Some q \<Rightarrow>
          if q < 48 then (78, ''Q1 < 48'')
          else if q < 50 then (75, ''Q1 48-49'')
          else if q < 55 then (70, ''Q1 50-54'')
          else (0, ''Q1 '' @ ge_sign @ '' 55''))"

text \<open>The point tables that \<open>calculate_confidence\<close> writes inline.\<close>

definition q1_points :: "int \<Rightarrow> int" where
  "q1_points q1_total =
     (if q1_total < 45 then 30 else if q1_total < 48 then 27 else if q1_total < 50 then 22 else 15)"

definition price_points :: "int \<Rightarrow> int" where
  "price_points buffer =
     (if buffer \<ge> 10 then 20 else if buffer \<ge> 6 then 15 else if buffer \<ge> 3 then 10 else 5)"

definition threshold_points :: "int \<Rightarrow> int" where
  "threshold_points threshold =
     (if threshold \<ge> 252 then 10 else if threshold \<ge> 250 then 7
      else if threshold \<ge> 248 then 5 else 3)"

definition spread_points :: "int \<Rightarrow> int" where
  "spread_points spread_est = (if spread_est \<ge> 7 then 8 else if spread_est \<ge> 5 then 5 else 2)"

text \<open>\<^verbatim>\<open>team in watchlist\<close>, where a team that could not be parsed is \<^verbatim>\<open>None\<close>.\<close>

definition in_watchlist :: "string option \<Rightarrow> string set \<Rightarrow> bool" where
  "in_watchlist team watchlist = (case team of None \<Rightarrow> False | Some t \<Rightarrow> t \<in> watchlist)"

definition calculate_confidence ::
  "market \<Rightarrow> int option \<Rightarrow> string set \<Rightarrow> int
     \<Rightarrow> int \<times> string \<times> string \<times> (string \<times> string) list" where
  "calculate_confidence mkt q1_total watchlist spread_est =
     (let away = mkt_away_team mkt; home = mkt_home_team mkt;
          threshold = mkt_threshold mkt; no_ask = mkt_no_ask mkt
      in if (case q1_total of None \<Rightarrow> False | Some q \<Rightarrow> q \<ge> 55) then
           (0, no_entry @ '' Q1 '' @ ge_sign @ '' 55 - NO TRADE'', ''red'',
            [(''REJECTED'', ''Q1 too high'')])
         else
           (let (max_price, regime) = get_price_tolerance q1_total in
            if (case q1_total of None \<Rightarrow> False | Some q \<Rightarrow> no_ask > max_price) then
              (0, no_entry @ '' Price '' @ str_of_int no_ask @ cent_sign @ '' > ''
                    @ str_of_int max_price @ cent_sign @ '' for '' @ regime,
               ''red'', [(''REJECTED'', ''Overpriced'')])
            else
              (case q1_total of
                 None \<Rightarrow> (0, hourglass @ '' WAIT FOR Q1'', ''gray'', [])
               | Some q1 \<Rightarrow>
                   (let q1_pts = q1_points q1;
                        score1 = 0 + q1_pts;
                        bd1 = dict_set [] ''Q1 Regime'' (str_of_int q1_pts @ ''/30'');
                        (score2, bd2) =
                          (if in_watchlist away watchlist \<or> in_watchlist home watchlist
                           then (score1 + 20, dict_set bd1 ''Watchlist'' (check_mark @ '' +20''))
                           else (score1, dict_set bd1 ''Watchlist'' (cross_mark @ '' +0'')));
                        buffer = max_price - no_ask;
                        price_pts = price_points buffer;
                        score3 = score2 + price_pts;
                        bd3 = dict_set bd2 ''Price Buffer'' (str_of_int price_pts @ ''/20'');
                        score4 = score3 + threshold_points threshold;
                        bd4 = dict_set bd3 ''Threshold'' (str_of_int threshold);
                        score5 = score4 + spread_points spread_est;
                        bd5 = dict_set bd4 ''OT Risk'' (''Spread '' @ str_of_int spread_est)
                    in if score5 \<ge> 75 then (score5, rocket @ '' STRONG BET'', ''green'', bd5)
                       else if score5 \<ge> 60 then (score5, check_mark @ '' GOOD BET'', ''green'', bd5)
                       else if score5 \<ge> 45 then
                         (score5, yellow_circle @ '' MARGINAL'', ''yellow'', bd5)
                       else (score5, warning_sign @ '' WEAK'', ''orange'', bd5)))))"

definition sample_market :: market where
  "sample_market =
     \<lparr>mkt_ticker = ''KXNBATOTAL-26JAN05LALBOS-252'',
      mkt_event_ticker = ''KXNBATOTAL-26JAN05LALBOS'', mkt_threshold = 252,
      mkt_away_team = Some ''LA Lakers'', mkt_home_team = Some ''Boston'',
      mkt_yes_ask = 40, mkt_no_ask = 60, mkt_volume = 12\<rparr>"

text \<open>
  The specification's reading of "the breakdown records the point contribution of a rule":
  the breakdown has an entry under the rule's name and the entry's text shows the number of
  points, in decimal.
\<close>

definition spec_records_points :: "(string \<times> string) list \<Rightarrow> string \<Rightarrow> int \<Rightarrow> bool" where
  "spec_records_points breakdown rule pts =
     (case map_of breakdown rule of
        None \<Rightarrow> False
      | Some txt \<Rightarrow> str_contains (str_of_int pts) txt)"

section \<open>Spike stickiness\<close>

lemma the_alerts_init [simp]: "the_alerts (init_price_history st) = the_alerts st"
  by (simp add: init_price_history_def the_alerts_def)

lemma the_history_init [simp]: "the_history (init_price_history st) = the_history st"
  by (simp add: init_price_history_def the_history_def)

lemma the_alerts_upd [simp]:
  "the_alerts (st\<lparr>spike_alerts := Some a\<rparr>) = a"
  "the_alerts (st\<lparr>price_history := h\<rparr>) = the_alerts st"
  by (simp_all add: the_alerts_def)

lemma the_history_upd [simp]:
  "the_history (st\<lparr>price_history := Some h\<rparr>) = h"
  "the_history (st\<lparr>spike_alerts := a\<rparr>) = the_history st"
  by (simp_all add: the_history_def)

lemma init_price_history_idem [simp]:
  "init_price_history (init_price_history st) = init_price_history st"
  by (simp add: init_price_history_def the_alerts_def the_history_def)

lemma alert_set_record_price:
  "alert_set st x \<Longrightarrow> alert_set (record_price st t p n) x"
  by (simp add: alert_set_def record_price_def Let_def)

lemma alert_set_check_price_spike:
  "alert_set st x \<Longrightarrow> alert_set (snd (check_price_spike st t p thr w n)) x"
  by (auto simp: alert_set_def check_price_spike_def Let_def split: option.splits list.splits)

lemma alert_set_is_spiked_state:
  "alert_set st x \<Longrightarrow> alert_set (snd (is_spiked st t)) x"
  by (simp add: alert_set_def is_spiked_def Let_def)

lemma alert_set_run_call: "alert_set st x \<Longrightarrow> alert_set (run_call st c) x"
  by (cases c)
     (simp_all add: alert_set_record_price alert_set_check_price_spike alert_set_is_spiked_state)

lemma alert_set_run_calls: "alert_set st x \<Longrightarrow> alert_set (run_calls st calls) x"
  unfolding run_calls_def
  by (induction calls arbitrary: st) (simp_all add: alert_set_run_call)

lemma triggered_sets_alert:
  "fst (fst (check_price_spike st x cp thr w now)) \<Longrightarrow>
   alert_set (snd (check_price_spike st x cp thr w now)) x"
  by (auto simp: alert_set_def check_price_spike_def Let_def
      split: option.splits list.splits if_splits)

lemma alert_set_is_spiked: "alert_set st x \<Longrightarrow> fst (is_spiked st x)"
  by (simp add: alert_set_def is_spiked_def)

lemma clear_spike_not_spiked: "alert_set st x \<Longrightarrow> \<not> fst (is_spiked (clear_spike st x) x)"
  by (auto simp: alert_set_def is_spiked_def clear_spike_def Let_def)

lemma scenario5_check:
  "fst (check_price_spike scenario5 ''T1'' 67 5 30 31000000) = (True, 7)"
  by (simp add: scenario5_def fresh_session_def record_price_def check_price_spike_def Let_def
      init_price_history_def the_history_def the_alerts_def samples_of_def timedelta_def)

text \<open>
  C2. Once \<open>check_price_spike\<close> reports a spike for a ticker \<open>x\<close> (its first result is
  true), \<open>is_spiked x\<close> answers true after every later sequence of \<open>record_price\<close>,
  \<open>check_price_spike\<close> and \<open>is_spiked\<close> calls, on any tickers, with any prices, thresholds,
  windows and clock readings; and \<open>is_spiked x\<close> answers false right after
  \<open>clear_spike x\<close>.
\<close>

theorem spike_alert_sticky:
  assumes "fst (fst (check_price_spike st x cp thr w now))"
  shows "fst (is_spiked (run_calls (snd (check_price_spike st x cp thr w now)) calls) x) \<and>
         \<not> fst (is_spiked
                 (clear_spike (run_calls (snd (check_price_spike st x cp thr w now)) calls) x) x)"
proof -
  let ?st = "run_calls (snd (check_price_spike st x cp thr w now)) calls"
  from assms have "alert_set (snd (check_price_spike st x cp thr w now)) x"
    by (rule triggered_sets_alert)
  then have inv: "alert_set ?st x"
    by (rule alert_set_run_calls)
  from inv have spiked: "fst (is_spiked ?st x)"
    by (rule alert_set_is_spiked)
  from inv have cleared: "\<not> fst (is_spiked (clear_spike ?st x) x)"
    by (rule clear_spike_not_spiked)
  from spiked cleared show ?thesis by simp
qed

theorem spike_alert_sticky_witness:
  "fst (fst (check_price_spike scenario5 ''T1'' 67 5 30 31000000)) \<and>
   fst (is_spiked (run_calls (snd (check_price_spike scenario5 ''T1'' 67 5 30 31000000))
          [RecordPrice ''T1'' 50 40000000, CheckPriceSpike ''T1'' 50 5 30 400000000]) ''T1'') \<and>
   \<not> fst (is_spiked (clear_spike
          (run_calls (snd (check_price_spike scenario5 ''T1'' 67 5 30 31000000))
             [RecordPrice ''T1'' 50 40000000, CheckPriceSpike ''T1'' 50 5 30 400000000])
          ''T1'') ''T1'')"
proof -
  have h: "fst (fst (check_price_spike scenario5 ''T1'' 67 5 30 31000000))"
    by (simp add: scenario5_check)
  from spike_alert_sticky [OF h] h show ?thesis by blast
qed

section \<open>The spike check\<close>

lemma sorted_filter_split:
  "sorted (map fst h) \<Longrightarrow>
   h = [(t, p) \<leftarrow> h. t \<le> (c::int)] @ [(t, p) \<leftarrow> h. \<not> t \<le> c]"
proof (induction h)
  case Nil
  show ?case by simp
next
  case (Cons s h)
  obtain t p where s: "s = (t, p)" by (cases s)
  from Cons.prems have sorted_h: "sorted (map fst h)" and le: "\<forall>u \<in> set h. t \<le> fst u"
    by (auto simp: s)
  show ?case
  proof (cases "t \<le> c")
    case True
    then show ?thesis using Cons.IH [OF sorted_h] by (simp add: s)
  next
    case False
    with le have "\<forall>u \<in> set h. \<not> fst u \<le> c" by force
    then have "[(t, p) \<leftarrow> h. t \<le> c] = []" "[(t, p) \<leftarrow> h. \<not> t \<le> c] = h"
      by (auto simp: filter_empty_conv filter_id_conv)
    then show ?thesis using False by (simp add: s)
  qed
qed

lemma sorted_filter_hd_least:
  assumes "sorted (map fst h)" and "s \<in> set (filter P h)"
  shows "fst (hd (filter P h)) \<le> fst s"
proof -
  have "sorted (map fst (filter P h))"
    using assms(1) by (simp add: sorted_filter)
  then show ?thesis using assms(2)
    by (cases "filter P h") (auto simp del: set_filter filter_eq_Cons_iff)
qed

lemma is_spiked_init [simp]: "fst (is_spiked (init_price_history st) y) = fst (is_spiked st y)"
  by (simp add: is_spiked_def)

lemma check_price_spike_unfold:
  "check_price_spike st x cp thr w now =
     (case [(t, p) \<leftarrow> samples_of (the_history st) x. t \<le> now - timedelta w] of
        [] \<Rightarrow> ((False, 0), init_price_history st)
      | s # _ \<Rightarrow>
          if cp - snd s \<ge> thr
          then ((True, cp - snd s),
                (init_price_history st)\<lparr>spike_alerts := Some ((the_alerts st)(x \<mapsto> True))\<rparr>)
          else ((False, cp - snd s), init_price_history st))"
  by (auto simp: check_price_spike_def samples_of_def Let_def split: option.splits list.splits)

lemma scenario5_history:
  "samples_of (the_history scenario5) ''T1'' = [(0, 60), (31000000, 67)]"
  by (simp add: scenario5_def fresh_session_def record_price_def Let_def
      init_price_history_def the_history_def the_alerts_def samples_of_def timedelta_def)

lemma record_price_history:
  "samples_of (the_history (record_price st x p now)) x =
     [(t, q) \<leftarrow> samples_of (the_history st) x @ [(now, p)]. t > now - timedelta 120]"
  by (simp add: record_price_def Let_def samples_of_def)

lemma record_price_other:
  "y \<noteq> x \<Longrightarrow> samples_of (the_history (record_price st x p now)) y = samples_of (the_history st) y"
  by (simp add: record_price_def Let_def samples_of_def)

lemma record_price_sorted:
  assumes "sorted (map fst (samples_of (the_history st) x))"
    and "\<forall>s \<in> set (samples_of (the_history st) x). fst s \<le> now"
  shows "sorted (map fst (samples_of (the_history (record_price st x p now)) x))"
proof -
  have "sorted (map fst (samples_of (the_history st) x @ [(now, p)]))"
    using assms by (auto simp: sorted_append)
  then show ?thesis
    unfolding record_price_history by (rule sorted_filter)
qed

text \<open>
  C3. \<open>check_price_spike\<close> divides the stored history of the ticker (empty when there is
  none) into the samples with timestamp at most \<open>now - window\<close> (old) and the rest. With no
  old sample it returns \<open>(False, 0)\<close> and leaves the alerts as they are. Otherwise the
  baseline is the price of the first old sample in the stored order, \<open>delta\<close> is the current
  price minus the baseline, and the result is \<open>(True, delta)\<close> with the alert of the ticker
  set when \<open>delta \<ge> threshold\<close>, and \<open>(False, delta)\<close> with the alerts unchanged
  otherwise. When the history is in ascending order of time, as \<open>record_price\<close> builds it
  under a clock that does not run backwards, the old samples are a prefix of the history and
  the baseline is the earliest of them.
\<close>

theorem check_price_spike_baseline:
  "let h = samples_of (the_history st) x;
       old = [(t, p) \<leftarrow> h. t \<le> now - timedelta w];
       rest = [(t, p) \<leftarrow> h. \<not> t \<le> now - timedelta w];
       r = check_price_spike st x cp thr w now
   in (old = [] \<longrightarrow> r = ((False, 0), init_price_history st)) \<and>
      (old \<noteq> [] \<longrightarrow>
         (let delta = cp - snd (hd old) in
            (delta \<ge> thr \<longrightarrow> fst r = (True, delta) \<and> fst (is_spiked (snd r) x) \<and>
               snd r = (init_price_history st)\<lparr>spike_alerts := Some ((the_alerts st)(x \<mapsto> True))\<rparr>) \<and>
            (delta < thr \<longrightarrow> r = ((False, delta), init_price_history st)))) \<and>
      (\<not> fst (fst r) \<longrightarrow> (\<forall>y. fst (is_spiked (snd r) y) = fst (is_spiked st y))) \<and>
      (sorted (map fst h) \<longrightarrow> h = old @ rest \<and> (\<forall>s \<in> set old. fst (hd old) \<le> fst s))"
proof -
  let ?h = "samples_of (the_history st) x"
  let ?old = "[(t, p) \<leftarrow> ?h. t \<le> now - timedelta w]"
  let ?rest = "[(t, p) \<leftarrow> ?h. \<not> t \<le> now - timedelta w]"
  let ?r = "check_price_spike st x cp thr w now"
  have none: "?old = [] \<longrightarrow> ?r = ((False, 0), init_price_history st)"
    by (simp add: check_price_spike_unfold)
  have some: "?old \<noteq> [] \<longrightarrow>
         (let delta = cp - snd (hd ?old) in
            (delta \<ge> thr \<longrightarrow> fst ?r = (True, delta) \<and> fst (is_spiked (snd ?r) x) \<and>
               snd ?r = (init_price_history st)\<lparr>spike_alerts := Some ((the_alerts st)(x \<mapsto> True))\<rparr>) \<and>
            (delta < thr \<longrightarrow> ?r = ((False, delta), init_price_history st)))"
    by (cases ?old) (simp_all add: check_price_spike_unfold Let_def is_spiked_def)
  have quiet: "\<not> fst (fst ?r) \<longrightarrow> (\<forall>y. fst (is_spiked (snd ?r) y) = fst (is_spiked st y))"
    by (cases ?old) (simp_all add: check_price_spike_unfold)
  have earliest: "sorted (map fst ?h) \<longrightarrow>
      ?h = ?old @ ?rest \<and> (\<forall>s \<in> set ?old. fst (hd ?old) \<le> fst s)"
    using sorted_filter_split [of ?h "now - timedelta w"] sorted_filter_hd_least [of ?h]
    by blast
  from none some quiet earliest show ?thesis
    unfolding Let_def by blast
qed

theorem check_price_spike_baseline_witness:
  "[(t, p) \<leftarrow> samples_of (the_history scenario5) ''T1''. t \<le> 31000000 - timedelta 30] = [(0, 60)] \<and>
   (67::int) - 60 \<ge> 5 \<and>
   fst (check_price_spike scenario5 ''T1'' 67 5 30 31000000) = (True, 7) \<and>
   fst (is_spiked (snd (check_price_spike scenario5 ''T1'' 67 5 30 31000000)) ''T1'') \<and>
   (64::int) - 60 < 5 \<and>
   check_price_spike scenario5 ''T1'' 64 5 30 31000000 = ((False, 4), init_price_history scenario5) \<and>
   [(t, p) \<leftarrow> samples_of (the_history scenario5) ''T1''. t \<le> 20000000 - timedelta 30] = [] \<and>
   check_price_spike scenario5 ''T1'' 99 5 30 20000000 = ((False, 0), init_price_history scenario5) \<and>
   sorted (map fst (samples_of (the_history scenario5) ''T1'')) \<and>
   samples_of (the_history scenario5) ''T1'' = [(0, 60)] @ [(31000000, 67)]"
  using check_price_spike_baseline [of scenario5 "''T1''" 31000000 30 67 5]
        check_price_spike_baseline [of scenario5 "''T1''" 31000000 30 64 5]
        check_price_spike_baseline [of scenario5 "''T1''" 20000000 30 99 5]
  by (simp add: Let_def scenario5_history timedelta_def is_spiked_def)

section \<open>Quotes with only a yes price\<close>

lemma extreme_total_of_no_ask:
  assumes "extreme_total_of today min_threshold m = Some q"
  shows "mkt_no_ask q =
           (if or_zero (raw_no_ask m) = 0 \<and> or_zero (raw_yes_ask m) > 0
            then 1 - or_zero (raw_yes_ask m) else or_zero (raw_no_ask m))"
  using assms
  by (auto simp: extreme_total_of_def Let_def split: option.splits if_splits prod.splits)

text \<open>
  C1. A market of today's game with strike 250, a yes price of 30 cents and a no price
  reported as 0 is stored with the no price \<open>1 - 30 = - 29\<close>, where the cents convention of
  every other price in the program asks for \<open>100 - 30 = 70\<close>.
\<close>

theorem fetch_extreme_totals_yes_only:
  "fetch_extreme_totals ''2026-01-05'' 245 (Response 200 [yes_only_market]) =
     ([\<lparr>mkt_ticker = ''KXNBATOTAL-26JAN05LALBOS-250'',
        mkt_event_ticker = ''KXNBATOTAL-26JAN05LALBOS'', mkt_threshold = 250,
        mkt_away_team = Some ''LA Lakers'', mkt_home_team = Some ''Boston'',
        mkt_yes_ask = 30, mkt_no_ask = - 29, mkt_volume = 12\<rparr>],
      None, ''2026-01-05'') \<and>
   map (\<lambda>q. (mkt_yes_ask q, mkt_no_ask q, 100 - mkt_yes_ask q))
     (fst (fetch_extreme_totals ''2026-01-05'' 245 (Response 200 [yes_only_market]))) =
     [(30, - 29, 70)]"
  by code_simp

section \<open>Game dates\<close>

text \<open>
  C8, as stated, fails. The code \<^verbatim>\<open>26XYZ05\<close> has no recognised month, and the code
  \<^verbatim>\<open>26\<close> is too short; \<open>parse_game_date\<close> returns a string for both.
\<close>

theorem parse_game_date_malformed_counterexample:
  "map_of months (upper (slice 2 5 ''26XYZ05'')) = None \<and>
   parse_game_date ''26XYZ05'' = Some ''2026-01-05'' \<and>
   length ''26'' < 7 \<and>
   parse_game_date ''26'' = Some ''2026-01-''"
  by code_simp

text \<open>
  C8, amended. For a code of at least seven characters \<open>parse_game_date\<close> returns a
  string of ten characters: \<^verbatim>\<open>20\<close>, the first two characters of the code, a hyphen, a month
  field, a hyphen and the characters at positions 5 and 6. The month field is the number
  of the month when the upper-cased characters at positions 2 to 4 are one of the twelve
  month codes, and \<^verbatim>\<open>01\<close> otherwise.
\<close>

theorem parse_game_date_total:
  assumes "length game_code \<ge> 7"
  shows "\<exists>mm. parse_game_date game_code =
                Some (''20'' @ take 2 game_code @ ''-'' @ mm @ ''-'' @ take 2 (drop 5 game_code)) \<and>
              (case map_of months (upper (take 3 (drop 2 game_code))) of
                 None \<Rightarrow> mm = ''01''
               | Some v \<Rightarrow> mm = v) \<and>
              length (''20'' @ take 2 game_code @ ''-'' @ mm @ ''-'' @ take 2 (drop 5 game_code)) = 10"
proof -
  let ?mm = "dict_get months (upper (slice 2 5 game_code)) ''01''"
  have len_mm: "length ?mm = 2"
    by (auto simp: dict_get_def months_def split: option.splits if_splits)
  have "parse_game_date game_code =
          Some (''20'' @ take 2 game_code @ ''-'' @ ?mm @ ''-'' @ take 2 (drop 5 game_code))"
    by (simp add: parse_game_date_def slice_def)
  moreover have "(case map_of months (upper (take 3 (drop 2 game_code))) of
                    None \<Rightarrow> ?mm = ''01'' | Some v \<Rightarrow> ?mm = v)"
    by (simp add: dict_get_def slice_def split: option.splits)
  moreover have "length (''20'' @ take 2 game_code @ ''-'' @ ?mm @ ''-'' @ take 2 (drop 5 game_code)) = 10"
    using assms len_mm by simp
  ultimately show ?thesis by blast
qed

theorem parse_game_date_total_witness:
  "length ''26JAN05LALBOS'' \<ge> 7 \<and> parse_game_date ''26JAN05LALBOS'' = Some ''2026-01-05'' \<and>
   (\<exists>mm. parse_game_date ''26JAN05LALBOS'' =
            Some (''20'' @ take 2 ''26JAN05LALBOS'' @ ''-'' @ mm @ ''-''
                    @ take 2 (drop 5 ''26JAN05LALBOS'')) \<and>
          (case map_of months (upper (take 3 (drop 2 ''26JAN05LALBOS''))) of
             None \<Rightarrow> mm = ''01''
           | Some v \<Rightarrow> mm = v) \<and>
          length (''20'' @ take 2 ''26JAN05LALBOS'' @ ''-'' @ mm @ ''-''
                    @ take 2 (drop 5 ''26JAN05LALBOS'')) = 10)"
proof -
  have h: "length ''26JAN05LALBOS'' \<ge> 7" by simp
  have e: "parse_game_date ''26JAN05LALBOS'' = Some ''2026-01-05''" by code_simp
  from parse_game_date_total [OF h] h e show ?thesis by blast
qed

section \<open>Recommended bids\<close>

text \<open>
  C7. For a fixed game state, first-quarter total, spike flag and lock flag, the
  recommended bid does not decrease when the no price increases: if both calls return a
  bid, the bid for the lower price is at most the bid for the higher price.
\<close>

theorem calculate_recommended_bid_monotone:
  assumes "no_ask1 \<le> no_ask2"
    and "fst (calculate_recommended_bid no_ask1 game_state q1_total spiked lock) = Some bid1"
    and "fst (calculate_recommended_bid no_ask2 game_state q1_total spiked lock) = Some bid2"
  shows "bid1 \<le> bid2"
  using assms by (auto simp: calculate_recommended_bid_def split: if_splits)

theorem calculate_recommended_bid_monotone_witness:
  "(70::int) \<le> 80 \<and>
   fst (calculate_recommended_bid 70 ''live_q1'' (Some 40) False False) = Some 62 \<and>
   fst (calculate_recommended_bid 80 ''live_q1'' (Some 40) False False) = Some 72 \<and>
   (62::int) \<le> 72"
proof -
  have h1: "(70::int) \<le> 80" by simp
  have h2: "fst (calculate_recommended_bid 70 ''live_q1'' (Some 40) False False) = Some 62"
    by (simp add: calculate_recommended_bid_def)
  have h3: "fst (calculate_recommended_bid 80 ''live_q1'' (Some 40) False False) = Some 72"
    by (simp add: calculate_recommended_bid_def)
  from calculate_recommended_bid_monotone [OF h1 h2 h3] h1 h2 h3 show ?thesis by blast
qed

text \<open>
  C10. In state \<^verbatim>\<open>post_q1\<close> with no first-quarter total, or a total of 0, and no spike
  (the default of the parameter), \<open>calculate_recommended_bid\<close> returns no bid with the label
  ASK ACCEPTABLE when the no price is at most 75, and the bid \<open>no_ask - 3\<close> otherwise;
  whatever the flags, its label is never NO TRADE.
\<close>

theorem post_q1_without_q1_total:
  assumes "q1_total = None \<or> q1_total = Some 0"
  shows "calculate_recommended_bid no_ask ''post_q1'' q1_total False lock =
           (if no_ask \<le> 75
            then (None, check_mark @ '' ASK ACCEPTABLE'',
                  ''Lift ask at '' @ str_of_int no_ask @ cent_sign @ '' if desired'')
            else (Some (no_ask - 3), ''Post-Q1 Value Bid'',
                  ''Information edge confirmed '' @ em_dash @ '' tight spread OK'')) \<and>
         (\<forall>spiked. fst (snd (calculate_recommended_bid no_ask ''post_q1'' q1_total spiked lock))
              \<noteq> no_entry @ '' NO TRADE'')"
  using assms by (auto simp: calculate_recommended_bid_def)

theorem post_q1_without_q1_total_witness:
  "((None :: int option) = None \<or> (None :: int option) = Some 0) \<and>
   (Some (0::int) = None \<or> Some (0::int) = Some 0) \<and>
   fst (calculate_recommended_bid 75 ''post_q1'' None False False) = None \<and>
   fst (snd (calculate_recommended_bid 75 ''post_q1'' None False False))
     = check_mark @ '' ASK ACCEPTABLE'' \<and>
   fst (calculate_recommended_bid 76 ''post_q1'' (Some 0) False True) = Some 73"
  using post_q1_without_q1_total [of None 75 False] post_q1_without_q1_total [of "Some 0" 76 True]
  by simp

section \<open>Game state in the first quarter\<close>

lemma split_char_not_Nil [simp]: "split_char c s \<noteq> []"
  by (induction s) (simp_all split: list.split)

lemma split_char_Cons_neq:
  "x \<noteq> c \<Longrightarrow> split_char c (x # xs) = (x # hd (split_char c xs)) # tl (split_char c xs)"
  by (cases "split_char c xs") simp_all

lemma split_char_Cons_eq: "split_char c (c # xs) = [] # split_char c xs"
  by simp

lemma split_char_single: "split_char c s = [a] \<longleftrightarrow> s = a \<and> c \<notin> set a"
proof (induction s arbitrary: a)
  case Nil
  show ?case by auto
next
  case (Cons x xs)
  show ?case
  proof (cases "x = c")
    case True
    then show ?thesis by (auto simp del: split_char.simps simp add: split_char_Cons_eq)
  next
    case False
    have "split_char c (x # xs) = [a] \<longleftrightarrow> (\<exists>p. a = x # p \<and> split_char c xs = [p])"
      using False by (cases "split_char c xs") (auto simp del: split_char.simps simp add: split_char_Cons_neq)
    also have "\<dots> \<longleftrightarrow> (\<exists>p. a = x # p \<and> xs = p \<and> c \<notin> set p)"
      using Cons.IH by simp
    also have "\<dots> \<longleftrightarrow> x # xs = a \<and> c \<notin> set a"
      using False by auto
    finally show ?thesis .
  qed
qed

lemma split_char_two:
  "split_char c s = [a, b] \<longleftrightarrow> s = a @ c # b \<and> c \<notin> set a \<and> c \<notin> set b"
proof (induction s arbitrary: a)
  case Nil
  show ?case by auto
next
  case (Cons x xs)
  show ?case
  proof (cases "x = c")
    case True
    have "split_char c (x # xs) = [a, b] \<longleftrightarrow> a = [] \<and> split_char c xs = [b]"
      using True by (auto simp del: split_char.simps simp add: split_char_Cons_eq)
    also have "\<dots> \<longleftrightarrow> a = [] \<and> xs = b \<and> c \<notin> set b"
      by (simp add: split_char_single)
    also have "\<dots> \<longleftrightarrow> x # xs = a @ c # b \<and> c \<notin> set a \<and> c \<notin> set b"
      using True by (cases a) auto
    finally show ?thesis .
  next
    case False
    have "split_char c (x # xs) = [a, b] \<longleftrightarrow> (\<exists>p. a = x # p \<and> split_char c xs = [p, b])"
      using False by (cases "split_char c xs") (auto simp del: split_char.simps simp add: split_char_Cons_neq)
    also have "\<dots> \<longleftrightarrow> (\<exists>p. a = x # p \<and> xs = p @ c # b \<and> c \<notin> set p \<and> c \<notin> set b)"
      using Cons.IH by simp
    also have "\<dots> \<longleftrightarrow> x # xs = a @ c # b \<and> c \<notin> set a \<and> c \<notin> set b"
      using False by (cases a) auto
    finally show ?thesis .
  qed
qed

lemma starts_with_single: "starts_with [c] s \<longleftrightarrow> (\<exists>t. s = c # t)"
  by (cases s) auto

lemma str_contains_single: "str_contains [c] s \<longleftrightarrow> c \<in> set s"
  by (induction s) (auto simp: starts_with_single)

lemma clock_total_secs_Some:
  "clock_total_secs py_int py_int_float clock = Some ts \<longleftrightarrow>
     (\<exists>mins secs m s. clock = mins @ '':'' @ secs \<and> CHR '':'' \<notin> set mins \<and> CHR '':'' \<notin> set secs \<and>
        py_int mins = Some m \<and> py_int_float secs = Some s \<and> ts = m * 60 + s)"
proof
  assume "clock_total_secs py_int py_int_float clock = Some ts"
  then obtain mins secs m s where
    sp: "split_char CHR '':'' clock = [mins, secs]" and
    m: "py_int mins = Some m" and s: "py_int_float secs = Some s" and ts: "ts = m * 60 + s"
    by (auto simp: clock_total_secs_def split: list.splits option.splits)
  from sp have "clock = mins @ '':'' @ secs \<and> CHR '':'' \<notin> set mins \<and> CHR '':'' \<notin> set secs"
    by (simp add: split_char_two)
  with m s ts show "\<exists>mins secs m s. clock = mins @ '':'' @ secs \<and> CHR '':'' \<notin> set mins \<and>
      CHR '':'' \<notin> set secs \<and> py_int mins = Some m \<and> py_int_float secs = Some s \<and> ts = m * 60 + s"
    by blast
next
  assume "\<exists>mins secs m s. clock = mins @ '':'' @ secs \<and> CHR '':'' \<notin> set mins \<and>
      CHR '':'' \<notin> set secs \<and> py_int mins = Some m \<and> py_int_float secs = Some s \<and> ts = m * 60 + s"
  then obtain mins secs m s where
    c: "clock = mins @ '':'' @ secs" "CHR '':'' \<notin> set mins" "CHR '':'' \<notin> set secs" and
    m: "py_int mins = Some m" and s: "py_int_float secs = Some s" and ts: "ts = m * 60 + s"
    by blast
  from c have "split_char CHR '':'' clock = [mins, secs]"
    by (simp add: split_char_two)
  with m s ts show "clock_total_secs py_int py_int_float clock = Some ts"
    by (simp add: clock_total_secs_def)
qed

lemma clock_total_secs_colon:
  "clock_total_secs py_int py_int_float clock = Some ts \<Longrightarrow> str_contains '':'' clock"
  by (auto simp: clock_total_secs_Some str_contains_single)

lemma q1_snapshot_fields:
  "ld_period (q1_snapshot c t) = 1"
  "\<not> str_contains ''End'' (ld_quarter (q1_snapshot c t))"
  "ld_status (q1_snapshot c t) \<noteq> yellow_circle @ '' SCHEDULED''"
  by (simp_all add: q1_snapshot_def)

text \<open>
  C6. For a live-score entry with period 1, a quarter label without \<^verbatim>\<open>End\<close> and a
  status other than SCHEDULED, \<open>get_game_state\<close> returns \<^verbatim>\<open>live_q1\<close> and the combined
  score, and the lock flag is true exactly when the clock consists of a minutes part and a
  seconds part around a single colon, both parts convert, the remaining seconds are at most
  75 and the combined score is below 50. A clock that does not parse leaves the flag false;
  the function returns a value for every input.
\<close>

theorem get_game_state_live_q1:
  assumes "ld_period ld = 1"
    and "\<not> str_contains ''End'' (ld_quarter ld)"
    and "ld_status ld \<noteq> yellow_circle @ '' SCHEDULED''"
  shows "get_game_state py_int py_int_float (Some ld) =
           (''live_q1'',
            (\<exists>mins secs m s.
                ld_clock ld = mins @ '':'' @ secs \<and>
                CHR '':'' \<notin> set mins \<and> CHR '':'' \<notin> set secs \<and>
                py_int mins = Some m \<and> py_int_float secs = Some s \<and>
                m * 60 + s \<le> 75 \<and> ld_total ld < 50),
            Some (ld_total ld))"
proof -
  let ?parsed = "clock_total_secs py_int py_int_float (ld_clock ld)"
  let ?flag = "(case ?parsed of None \<Rightarrow> False | Some ts \<Rightarrow> ts \<le> 75 \<and> ld_total ld < 50)"
  have colon: "str_contains '':'' (ld_clock ld) \<or> ?parsed = None"
    using clock_total_secs_colon [of py_int py_int_float "ld_clock ld"] by (cases ?parsed) auto
  have state: "get_game_state py_int py_int_float (Some ld) = (''live_q1'', ?flag, Some (ld_total ld))"
    using assms colon by (auto simp: get_game_state_def Let_def)
  have "?flag \<longleftrightarrow> (\<exists>ts. ?parsed = Some ts \<and> ts \<le> 75 \<and> ld_total ld < 50)"
    by (cases ?parsed) auto
  also have "\<dots> \<longleftrightarrow> (\<exists>mins secs m s.
                ld_clock ld = mins @ '':'' @ secs \<and>
                CHR '':'' \<notin> set mins \<and> CHR '':'' \<notin> set secs \<and>
                py_int mins = Some m \<and> py_int_float secs = Some s \<and>
                m * 60 + s \<le> 75 \<and> ld_total ld < 50)"
    unfolding clock_total_secs_Some by blast
  finally show ?thesis using state by simp
qed

theorem get_game_state_live_q1_witness:
  "ld_period (q1_snapshot ''1:05'' 40) = 1 \<and>
   \<not> str_contains ''End'' (ld_quarter (q1_snapshot ''1:05'' 40)) \<and>
   ld_status (q1_snapshot ''1:05'' 40) \<noteq> yellow_circle @ '' SCHEDULED'' \<and>
   get_game_state decimal_digits decimal_digits (Some (q1_snapshot ''1:05'' 40)) =
     (''live_q1'', True, Some 40) \<and>
   get_game_state decimal_digits decimal_digits (Some (q1_snapshot ''45.3'' 40)) =
     (''live_q1'', False, Some 40) \<and>
   get_game_state decimal_digits decimal_digits (Some (q1_snapshot ''1:16'' 40)) =
     (''live_q1'', False, Some 40) \<and>
   (\<exists>mins secs m s.
       ld_clock (q1_snapshot ''1:05'' 40) = mins @ '':'' @ secs \<and>
       CHR '':'' \<notin> set mins \<and> CHR '':'' \<notin> set secs \<and>
       decimal_digits mins = Some m \<and> decimal_digits secs = Some s \<and>
       m * 60 + s \<le> 75 \<and> ld_total (q1_snapshot ''1:05'' 40) < 50)"
proof -
  note h = q1_snapshot_fields [of "''1:05''" 40]
  have e1: "get_game_state decimal_digits decimal_digits (Some (q1_snapshot ''1:05'' 40)) =
     (''live_q1'', True, Some 40)" by code_simp
  have e2: "get_game_state decimal_digits decimal_digits (Some (q1_snapshot ''45.3'' 40)) =
     (''live_q1'', False, Some 40)" by code_simp
  have e3: "get_game_state decimal_digits decimal_digits (Some (q1_snapshot ''1:16'' 40)) =
     (''live_q1'', False, Some 40)" by code_simp
  note inst = get_game_state_live_q1 [OF h, of decimal_digits decimal_digits]
  have f: "fst (snd (get_game_state decimal_digits decimal_digits (Some (q1_snapshot ''1:05'' 40))))"
    unfolding e1 by simp
  note parsed = f [unfolded inst fst_conv snd_conv]
  from parsed h e1 e2 e3 show ?thesis by blast
qed

section \<open>Price tolerance and confidence score\<close>

text \<open>
  C5. \<open>get_price_tolerance\<close> follows the band table, with the labels as the program spells
  them: no total gives 68 and \<^verbatim>\<open>Pregame\<close>; a total below 48 gives 78 and \<^verbatim>\<open>Q1 < 48\<close>;
  48 or 49 gives 75 and \<^verbatim>\<open>Q1 48-49\<close>; 50 to 54 gives 70 and \<^verbatim>\<open>Q1 50-54\<close>; 55 or more
  gives 0 and the label Q1, greater-or-equal sign, 55. Every integer lies in exactly one
  band, and the ceiling does not increase as the total increases.
\<close>

theorem get_price_tolerance_bands:
  "get_price_tolerance None = (68, ''Pregame'') \<and>
   (\<forall>q. (q < 48 \<longrightarrow> get_price_tolerance (Some q) = (78, ''Q1 < 48'')) \<and>
        (48 \<le> q \<and> q < 50 \<longrightarrow> get_price_tolerance (Some q) = (75, ''Q1 48-49'')) \<and>
        (50 \<le> q \<and> q < 55 \<longrightarrow> get_price_tolerance (Some q) = (70, ''Q1 50-54'')) \<and>
        (55 \<le> q \<longrightarrow> get_price_tolerance (Some q) = (0, ''Q1 '' @ ge_sign @ '' 55'')) \<and>
        length (filter id [q < 48, 48 \<le> q \<and> q < 50, 50 \<le> q \<and> q < 55, 55 \<le> q]) = 1) \<and>
   (\<forall>q q'. q \<le> q' \<longrightarrow>
      fst (get_price_tolerance (Some q')) \<le> fst (get_price_tolerance (Some q)))"
  by (auto simp: get_price_tolerance_def)

theorem get_price_tolerance_bands_witness:
  "get_price_tolerance None = (68, ''Pregame'') \<and>
   (47::int) < 48 \<and> get_price_tolerance (Some 47) = (78, ''Q1 < 48'') \<and>
   (48::int) \<le> 49 \<and> (49::int) < 50 \<and> get_price_tolerance (Some 49) = (75, ''Q1 48-49'') \<and>
   (50::int) \<le> 54 \<and> (54::int) < 55 \<and> get_price_tolerance (Some 54) = (70, ''Q1 50-54'') \<and>
   (55::int) \<le> 55 \<and> get_price_tolerance (Some 55) = (0, ''Q1 '' @ ge_sign @ '' 55'') \<and>
   (47::int) \<le> 55 \<and>
   fst (get_price_tolerance (Some 55)) \<le> fst (get_price_tolerance (Some 47))"
  using get_price_tolerance_bands by simp

text \<open>
  C4. With a first-quarter total of 55 or more, \<open>calculate_confidence\<close> returns score 0
  and severity red, for every market (teams, no price, strike), watchlist and spread
  estimate.
\<close>

theorem calculate_confidence_q1_veto:
  assumes "q1 \<ge> 55"
  shows "calculate_confidence mkt (Some q1) watchlist spread_est =
           (0, no_entry @ '' Q1 '' @ ge_sign @ '' 55 - NO TRADE'', ''red'',
            [(''REJECTED'', ''Q1 too high'')])"
  using assms by (simp add: calculate_confidence_def)

theorem calculate_confidence_q1_veto_witness:
  "(56::int) \<ge> 55 \<and>
   calculate_confidence sample_market (Some 56) {''Boston''} 7 =
     (0, no_entry @ '' Q1 '' @ ge_sign @ '' 55 - NO TRADE'', ''red'',
      [(''REJECTED'', ''Q1 too high'')])"
proof -
  have h: "(56::int) \<ge> 55" by simp
  from calculate_confidence_q1_veto [OF h] h show ?thesis by blast
qed

text \<open>
  C9, as stated, fails. For a market with strike 252 and no price 60, a first-quarter
  total of 40, an empty watchlist and a spread estimate of 7, the strike rule contributes
  10 points and the spread rule 8, and the breakdown's entries for them are \<^verbatim>\<open>252\<close> and
  \<^verbatim>\<open>Spread 7\<close>: the inputs of the two rules, not their points.
\<close>

theorem breakdown_points_counterexample:
  "fst (calculate_confidence sample_market (Some 40) {} 7) = 68 \<and>
   snd (snd (snd (calculate_confidence sample_market (Some 40) {} 7))) =
     [(''Q1 Regime'', ''30/30''), (''Watchlist'', cross_mark @ '' +0''),
      (''Price Buffer'', ''20/20''), (''Threshold'', ''252''), (''OT Risk'', ''Spread 7'')] \<and>
   threshold_points (mkt_threshold sample_market) = 10 \<and>
   spread_points 7 = 8 \<and>
   \<not> spec_records_points (snd (snd (snd (calculate_confidence sample_market (Some 40) {} 7))))
        ''Threshold'' (threshold_points (mkt_threshold sample_market)) \<and>
   \<not> spec_records_points (snd (snd (snd (calculate_confidence sample_market (Some 40) {} 7))))
        ''OT Risk'' (spread_points 7)"
  by code_simp

text \<open>
  C9, amended. On the scoring path (a total below 55 and a no price within the ceiling)
  the breakdown has exactly five entries, in this order: the Q1 regime points over 30, the
  watchlist bonus (+20 or +0), the price buffer points over 20, the strike threshold
  itself, and the spread estimate itself; and the score is the sum of the five rules'
  points.
\<close>

theorem calculate_confidence_breakdown:
  assumes "q1 < 55" and "mkt_no_ask mkt \<le> fst (get_price_tolerance (Some q1))"
  shows "snd (snd (snd (calculate_confidence mkt (Some q1) watchlist spread_est))) =
           [(''Q1 Regime'', str_of_int (q1_points q1) @ ''/30''),
            (''Watchlist'',
               if in_watchlist (mkt_away_team mkt) watchlist \<or> in_watchlist (mkt_home_team mkt) watchlist
               then check_mark @ '' +20'' else cross_mark @ '' +0''),
            (''Price Buffer'',
               str_of_int (price_points (fst (get_price_tolerance (Some q1)) - mkt_no_ask mkt)) @ ''/20''),
            (''Threshold'', str_of_int (mkt_threshold mkt)),
            (''OT Risk'', ''Spread '' @ str_of_int spread_est)] \<and>
         fst (calculate_confidence mkt (Some q1) watchlist spread_est) =
           q1_points q1
           + (if in_watchlist (mkt_away_team mkt) watchlist \<or> in_watchlist (mkt_home_team mkt) watchlist
              then 20 else 0)
           + price_points (fst (get_price_tolerance (Some q1)) - mkt_no_ask mkt)
           + threshold_points (mkt_threshold mkt)
           + spread_points spread_est"
  using assms
  by (cases "get_price_tolerance (Some q1)")
     (simp add: calculate_confidence_def Let_def)

theorem calculate_confidence_breakdown_witness:
  "(40::int) < 55 \<and> mkt_no_ask sample_market \<le> fst (get_price_tolerance (Some 40)) \<and>
   snd (snd (snd (calculate_confidence sample_market (Some 40) {''Boston''} 4))) =
     [(''Q1 Regime'', ''30/30''), (''Watchlist'', check_mark @ '' +20''),
      (''Price Buffer'', ''20/20''), (''Threshold'', ''252''), (''OT Risk'', ''Spread 4'')] \<and>
   fst (calculate_confidence sample_market (Some 40) {''Boston''} 4) = 30 + 20 + 20 + 10 + 2"
proof -
  have h1: "(40::int) < 55" by simp
  have h2: "mkt_no_ask sample_market \<le> fst (get_price_tolerance (Some 40))"
    by (simp add: sample_market_def get_price_tolerance_def)
  have s1: "str_of_int 30 = ''30''" "str_of_int 20 = ''20''" "str_of_int 252 = ''252''"
    "str_of_int 4 = ''4''"
    by code_simp+
  have pts: "q1_points 40 = 30" "price_points 18 = 20" "threshold_points 252 = 10"
    "spread_points 4 = 2"
    by (simp_all add: q1_points_def price_points_def threshold_points_def spread_points_def)
  have g: "fst (get_price_tolerance (Some 40)) = 78" by (simp add: get_price_tolerance_def)
  have m: "mkt_no_ask sample_market = 60" "mkt_threshold sample_market = 252"
    "mkt_away_team sample_market = Some ''LA Lakers''" "mkt_home_team sample_market = Some ''Boston''"
    by (simp_all add: sample_market_def)
  from calculate_confidence_breakdown [OF h1 h2, of "{''Boston''}" 4] h1 h2
  show ?thesis
    by (simp add: s1 pts g m in_watchlist_def)
qed

end
